theory Spec2Isabelle
  imports Main "HOL-Library.Sublist"
begin

section \<open>The document text extractor \<open>extract_prd.py\<close>\<close>

text \<open>
  The script reads the paragraphs of a word-processing document, joins their texts with
  newlines and writes the result to a text file. Everything it touches outside its own
  variables (the file system, the document decoder, the console) is made explicit as a
  \<open>world\<close> value that every operation takes and returns; every exception is a value
  \<open>Inl e\<close> of a sum type.
\<close>

subsection \<open>Strings: \<open>str.join\<close> and \<open>str.split\<close>\<close>

abbreviation newline :: char where
  "newline \<equiv> CHR 0x0A"

text \<open>
  Python's \<open>sep.join(xs)\<close>: the elements of \<open>xs\<close> in order, with \<open>sep\<close> between each
  two neighbours; the empty list gives the empty string.
\<close>

fun str_join :: "string \<Rightarrow> string list \<Rightarrow> string" where
  "str_join sep [] = []"
| "str_join sep [x] = x"
| "str_join sep (x # y # ys) = x @ sep @ str_join sep (y # ys)"

text \<open>
  Python's \<open>s.split(sep)\<close> for a one-character separator: the pieces between the
  occurrences of \<open>sep\<close>. A string without the separator gives one piece, so
  \<open>''.split('\n')\<close> is \<open>['']\<close>.
\<close>

fun str_split :: "char \<Rightarrow> string \<Rightarrow> string list" where
  "str_split sep [] = [[]]"
| "str_split sep (c # cs) =
     (if c = sep then [] # str_split sep cs
      else (case str_split sep cs of
              [] \<Rightarrow> [[c]]
            | piece # pieces \<Rightarrow> (c # piece) # pieces))"

subsection \<open>Data model\<close>

text \<open>
  A paragraph object has a \<open>text\<close> attribute, a document object a \<open>paragraphs\<close>
  sequence. A file on disk is either a well-formed document package, which the decoder
  opens, or anything else, which it rejects. The content of a text file is its decoded
  text (the UTF-8 encoding and the platform's line-end translation are not modelled).
\<close>

record docx_paragraph =
  para_text :: string

record document =
  paragraphs :: "docx_paragraph list"

datatype disk_file = DocxFile document | PlainFile string

datatype error = PackageNotFoundError | DecodeError | OpenError | WriteError

text \<open>
  The world: the files by path, the paths that refuse to be opened for writing, the
  number of characters the device still accepts (\<open>None\<close>: no limit), the handles that
  are open, the paths the decoder was called on, and the lines printed so far.
\<close>

record world =
  fs :: "string \<rightharpoonup> disk_file"
  read_only :: "string set"
  disk_quota :: "nat option"
  open_handles :: "string list"
  decoder_calls :: "string list"
  console :: "string list"

subsection \<open>The collaborators: \<open>os.path.exists\<close>, \<open>docx.Document\<close>, \<open>open\<close>, \<open>print\<close>\<close>

definition path_exists :: "world \<Rightarrow> string \<Rightarrow> bool" where
  "path_exists w path = (fs w path \<noteq> None)"

definition Document :: "string \<Rightarrow> world \<Rightarrow> (error + document) \<times> world" where
  "Document path w =
     (let w' = w\<lparr>decoder_calls := decoder_calls w @ [path]\<rparr> in
      case fs w path of
        None \<Rightarrow> (Inl PackageNotFoundError, w')
      | Some (PlainFile _) \<Rightarrow> (Inl DecodeError, w')
      | Some (DocxFile doc) \<Rightarrow> (Inr doc, w'))"

text \<open>
  \<open>open(path, 'w')\<close> raises when the path refuses writing and changes nothing then;
  otherwise it creates or truncates the file and returns a handle.
\<close>

definition open_w :: "string \<Rightarrow> world \<Rightarrow> (error + string) \<times> world" where
  "open_w path w =
     (if path \<in> read_only w then (Inl OpenError, w)
      else (Inr path, w\<lparr>fs := (fs w)(path \<mapsto> PlainFile []),
                         open_handles := path # open_handles w\<rparr>))"

definition append_file :: "string \<Rightarrow> string \<Rightarrow> world \<Rightarrow> world" where
  "append_file f s w =
     (case fs w f of
        Some (PlainFile old) \<Rightarrow> w\<lparr>fs := (fs w)(f \<mapsto> PlainFile (old @ s))\<rparr>
      | _ \<Rightarrow> w)"

text \<open>
  \<open>f.write(s)\<close> appends \<open>s\<close>; when the device accepts fewer characters than \<open>s\<close> has, it
  keeps what fitted and raises.
\<close>

definition file_write :: "string \<Rightarrow> string \<Rightarrow> world \<Rightarrow> (error + unit) \<times> world" where
  "file_write f s w =
     (case disk_quota w of
        None \<Rightarrow> (Inr (), append_file f s w)
      | Some k \<Rightarrow>
          (if length s \<le> k then (Inr (), append_file f s w)
           else (Inl WriteError, append_file f (take k s) w)))"

definition file_close :: "string \<Rightarrow> world \<Rightarrow> world" where
  "file_close f w = w\<lparr>open_handles := remove1 f (open_handles w)\<rparr>"

text \<open>
  The statement \<open>with open(path, 'w') as f: body\<close>: when \<open>open\<close> raises there is no
  handle and the error leaves the block; otherwise the body runs and the handle is
  closed on the way out, whether the body returned or raised.
\<close>

definition with_open_w ::
  "string \<Rightarrow> (string \<Rightarrow> world \<Rightarrow> (error + 'a) \<times> world) \<Rightarrow> world \<Rightarrow> (error + 'a) \<times> world" where
  "with_open_w path body w =
     (case open_w path w of
        (Inl e, w1) \<Rightarrow> (Inl e, w1)
      | (Inr f, w1) \<Rightarrow> (case body f w1 of (r, w2) \<Rightarrow> (r, file_close f w2)))"

definition py_print :: "string \<Rightarrow> world \<Rightarrow> world" where
  "py_print msg w = w\<lparr>console := console w @ [msg]\<rparr>"

subsection \<open>The script\<close>

text \<open>The loop of \<open>read_docx\<close>: \<open>for para in doc.paragraphs: full_text.append(para.text)\<close>.\<close>

fun append_loop :: "docx_paragraph list \<Rightarrow> string list \<Rightarrow> string list" where
  "append_loop [] full_text = full_text"
| "append_loop (para # rest) full_text = append_loop rest (full_text @ [para_text para])"

definition read_docx :: "string \<Rightarrow> world \<Rightarrow> (error + string) \<times> world" where
  "read_docx path w =
     (case Document path w of
        (Inl e, w') \<Rightarrow> (Inl e, w')
      | (Inr doc, w') \<Rightarrow> (Inr (str_join [newline] (append_loop (paragraphs doc) [])), w'))"

definition file_path :: string where
  "file_path = ''JB_Platform_PRD_v3.docx''"

definition out_path :: string where
  "out_path = ''JB_Platform_PRD_v3.txt''"

definition success_msg :: string where
  "success_msg = ''Successfully extracted text to JB_Platform_PRD_v3.txt''"

definition not_found_msg :: string where
  "not_found_msg = ''File '' @ file_path @ '' not found''"

text \<open>
  The module body. An exception of \<open>read_docx\<close> or of the \<open>with\<close> block is handled
  nowhere, so it ends the run as \<open>Inl e\<close>.
\<close>

definition main :: "world \<Rightarrow> (error + unit) \<times> world" where
  "main w =
     (if path_exists w file_path then
        (case read_docx file_path w of
           (Inl e, w1) \<Rightarrow> (Inl e, w1)
         | (Inr txt, w1) \<Rightarrow>
             (case with_open_w out_path (\<lambda>f. file_write f txt) w1 of
                (Inl e, w2) \<Rightarrow> (Inl e, w2)
              | (Inr u, w2) \<Rightarrow> (Inr (), py_print success_msg w2)))
      else (Inr (), py_print not_found_msg w))"

text \<open>What a text file at a path holds, if there is one.\<close>

definition file_content :: "world \<Rightarrow> string \<Rightarrow> string option" where
  "file_content w path =
     (case fs w path of Some (PlainFile s) \<Rightarrow> Some s | _ \<Rightarrow> None)"

text \<open>The text a document is extracted to, and the world after one call of the decoder.\<close>

abbreviation joined_text :: "document \<Rightarrow> string" where
  "joined_text d \<equiv> str_join [newline] (map para_text (paragraphs d))"

abbreviation decoded :: "world \<Rightarrow> world" where
  "decoded w \<equiv> w\<lparr>decoder_calls := decoder_calls w @ [file_path]\<rparr>"

subsection \<open>The join as the specification words it\<close>

text \<open>
  The specification's join: the first paragraph string, then every further one with a
  single newline character in front of it.
\<close>

definition joined_spec :: "string list \<Rightarrow> string" where
  "joined_spec ps =
     (case ps of [] \<Rightarrow> [] | p # rest \<Rightarrow> p @ concat (map (\<lambda>q. newline # q) rest))"

subsection \<open>Concrete documents and worlds\<close>

text \<open>
  A world with one file under the input name and nothing else, and the documents of the
  scenarios: three paragraphs with an empty one in the middle, no paragraph at all, and
  one paragraph with a line break inside.
\<close>

definition world_with :: "disk_file \<Rightarrow> world" where
  "world_with f =
     \<lparr>fs = [file_path \<mapsto> f], read_only = {}, disk_quota = None,
      open_handles = [], decoder_calls = [], console = []\<rparr>"

definition empty_world :: world where
  "empty_world =
     \<lparr>fs = Map.empty, read_only = {}, disk_quota = None,
      open_handles = [], decoder_calls = [], console = []\<rparr>"

definition scenario_A :: document where
  "scenario_A =
     \<lparr>paragraphs = [\<lparr>para_text = ''Title''\<rparr>, \<lparr>para_text = ''''\<rparr>,
                    \<lparr>para_text = ''Body text.''\<rparr>]\<rparr>"

definition scenario_B :: document where
  "scenario_B = \<lparr>paragraphs = []\<rparr>"

definition line_break_doc :: document where
  "line_break_doc = \<lparr>paragraphs = [\<lparr>para_text = [CHR ''a'', newline, CHR ''b'']\<rparr>]\<rparr>"

section \<open>Properties of joining and splitting\<close>

lemma append_loop_eq: "append_loop ps acc = acc @ map para_text ps"
  by (induction ps arbitrary: acc) simp_all

lemma str_split_not_Nil: "str_split sep s \<noteq> []"
  by (induction s) (simp_all split: list.splits)

lemma str_split_free: "sep \<notin> set s \<Longrightarrow> str_split sep s = [s]"
  by (induction s) auto

lemma str_split_append:
  "sep \<notin> set x \<Longrightarrow> str_split sep (x @ sep # rest) = x # str_split sep rest"
  by (induction x) auto

lemma str_split_join:
  "ps \<noteq> [] \<Longrightarrow> \<forall>p \<in> set ps. sep \<notin> set p \<Longrightarrow> str_split sep (str_join [sep] ps) = ps"
proof (induction "[sep]" ps rule: str_join.induct)
  case 1
  then show ?case by simp
next
  case (2 x)
  then show ?case by (simp add: str_split_free)
next
  case (3 x y ys)
  then show ?case by (simp add: str_split_append)
qed

lemma length_str_split: "length (str_split sep s) = Suc (count_list s sep)"
proof (induction s)
  case Nil
  show ?case by simp
next
  case (Cons c cs)
  then show ?case by (cases "str_split sep cs") auto
qed

lemma count_list_str_join:
  "count_list (str_join [sep] ps) sep = (length ps - 1) + sum_list (map (\<lambda>p. count_list p sep) ps)"
  by (induction "[sep]" ps rule: str_join.induct) simp_all

lemma length_str_join:
  "length (str_join sep ps) = sum_list (map length ps) + (length ps - 1) * length sep"
  by (induction sep ps rule: str_join.induct) simp_all

lemma sum_count_zero_iff:
  "sum_list (map (\<lambda>p. count_list p sep) ps) = 0 \<longleftrightarrow> (\<forall>p \<in> set ps. sep \<notin> set p)"
  by (induction ps) (auto simp: count_list_0_iff)

section \<open>What a run does, case by case\<close>

lemma paths_differ: "file_path \<noteq> out_path"
  by (simp add: file_path_def out_path_def)

lemma read_docx_docx:
  "fs w path = Some (DocxFile d) \<Longrightarrow>
   read_docx path w = (Inr (joined_text d), w\<lparr>decoder_calls := decoder_calls w @ [path]\<rparr>)"
  by (simp add: read_docx_def Document_def append_loop_eq)

lemma read_docx_plain:
  "fs w path = Some (PlainFile s) \<Longrightarrow>
   read_docx path w = (Inl DecodeError, w\<lparr>decoder_calls := decoder_calls w @ [path]\<rparr>)"
  by (simp add: read_docx_def Document_def)

lemma main_absent:
  "fs w file_path = None \<Longrightarrow> main w = (Inr (), py_print not_found_msg w)"
  by (simp add: main_def path_exists_def)

lemma main_undecodable:
  "fs w file_path = Some (PlainFile s) \<Longrightarrow> main w = (Inl DecodeError, decoded w)"
  by (simp add: main_def path_exists_def read_docx_plain)

lemma main_open_refused:
  "fs w file_path = Some (DocxFile d) \<Longrightarrow> out_path \<in> read_only w \<Longrightarrow>
   main w = (Inl OpenError, decoded w)"
  by (simp add: main_def path_exists_def read_docx_docx with_open_w_def open_w_def)

lemma main_written:
  assumes "fs w file_path = Some (DocxFile d)" and "out_path \<notin> read_only w"
    and "disk_quota w = None \<or> (\<exists>k. disk_quota w = Some k \<and> length (joined_text d) \<le> k)"
  shows "main w =
     (Inr (), w\<lparr>fs := (fs w)(out_path \<mapsto> PlainFile (joined_text d)),
                 decoder_calls := decoder_calls w @ [file_path],
                 console := console w @ [success_msg]\<rparr>)"
  using assms
  by (auto simp: main_def path_exists_def read_docx_docx with_open_w_def open_w_def
      file_write_def append_file_def file_close_def py_print_def)

lemma main_write_failed:
  assumes "fs w file_path = Some (DocxFile d)" and "out_path \<notin> read_only w"
    and "disk_quota w = Some k" and "k < length (joined_text d)"
  shows "main w =
     (Inl WriteError, w\<lparr>fs := (fs w)(out_path \<mapsto> PlainFile (take k (joined_text d))),
                         decoder_calls := decoder_calls w @ [file_path]\<rparr>)"
  using assms
  by (auto simp: main_def path_exists_def read_docx_docx with_open_w_def open_w_def
      file_write_def append_file_def file_close_def)

text \<open>The five cases are all there are.\<close>

lemma main_cases:
  obtains (absent) "fs w file_path = None"
  | (undecodable) s where "fs w file_path = Some (PlainFile s)"
  | (open_refused) d where "fs w file_path = Some (DocxFile d)" "out_path \<in> read_only w"
  | (written) d where "fs w file_path = Some (DocxFile d)" "out_path \<notin> read_only w"
      "disk_quota w = None \<or> (\<exists>k. disk_quota w = Some k \<and> length (joined_text d) \<le> k)"
  | (write_failed) d k where "fs w file_path = Some (DocxFile d)" "out_path \<notin> read_only w"
      "disk_quota w = Some k" "k < length (joined_text d)"
proof (cases "fs w file_path")
  case None
  then show ?thesis by (rule absent)
next
  case (Some f)
  show ?thesis
  proof (cases f)
    case (PlainFile s)
    with Some show ?thesis by (auto intro: undecodable)
  next
    case (DocxFile d)
    with Some have fd: "fs w file_path = Some (DocxFile d)" by simp
    show ?thesis
    proof (cases "out_path \<in> read_only w")
      case True
      with fd show ?thesis by (rule open_refused)
    next
      case ro: False
      show ?thesis
      proof (cases "disk_quota w")
        case None
        with fd ro show ?thesis by (auto intro: written)
      next
        case (Some k)
        show ?thesis
        proof (cases "k < length (joined_text d)")
          case True
          with fd ro Some show ?thesis by (auto intro: write_failed)
        next
          case False
          with fd ro Some show ?thesis by (auto intro: written)
        qed
      qed
    qed
  qed
qed

lemma str_join_spec: "str_join [newline] ps = joined_spec ps"
  by (induction "[newline]" ps rule: str_join.induct) (simp_all add: joined_spec_def)

lemma str_join_suffix: "ps \<noteq> [] \<Longrightarrow> suffix (last ps) (str_join sep ps)"
  by (induction sep ps rule: str_join.induct) (simp_all add: suffix_appendI)

text \<open>Runs in a world that holds just one well-formed document.\<close>

lemma main_world_with:
  "main (world_with (DocxFile d)) =
     (Inr (), (world_with (DocxFile d))
        \<lparr>fs := [file_path \<mapsto> DocxFile d, out_path \<mapsto> PlainFile (joined_text d)],
         decoder_calls := [file_path], console := [success_msg]\<rparr>)"
  by (subst main_written [of _ d]) (simp_all add: world_with_def)

lemma fst_main_world_with: "fst (main (world_with (DocxFile d))) = Inr ()"
  by (simp add: main_world_with)

lemma content_main_world_with:
  "file_content (snd (main (world_with (DocxFile d)))) out_path = Some (joined_text d)"
  by (simp add: main_world_with file_content_def)

lemma fs_world_with: "fs (world_with f) file_path = Some f"
  by (simp add: world_with_def)

section \<open>Further facts about the collaborators and the messages\<close>

lemma fs_empty_world: "fs empty_world file_path = None"
  by (simp add: empty_world_def)

lemma sublist_not_found: "sublist file_path not_found_msg"
  unfolding not_found_msg_def by (rule sublist_appendI)

lemma sublist_success: "sublist out_path success_msg"
proof -
  have "success_msg = ''Successfully extracted text to '' @ out_path @ []"
    by (simp add: success_msg_def out_path_def)
  then show ?thesis by (metis sublist_appendI)
qed

lemma msgs_differ: "success_msg \<noteq> not_found_msg"
  by (simp add: success_msg_def not_found_msg_def)

lemma snd_Document:
  "snd (Document path w) = w\<lparr>decoder_calls := decoder_calls w @ [path]\<rparr>"
  by (simp add: Document_def Let_def split: option.splits disk_file.splits)

lemma snd_read_docx:
  "snd (read_docx path w) = w\<lparr>decoder_calls := decoder_calls w @ [path]\<rparr>"
  using snd_Document [of path w]
  by (auto simp: read_docx_def split: prod.splits sum.splits)

lemma console_with_open_w:
  "console (snd (with_open_w path (\<lambda>f. file_write f txt) w)) = console w"
  by (auto simp: with_open_w_def open_w_def file_write_def append_file_def file_close_def
      split: prod.splits sum.splits option.splits disk_file.splits if_splits)

lemma main_success_cases:
  assumes "fst (main w) = Inr ()"
  obtains (absent) "fs w file_path = None" "main w = (Inr (), py_print not_found_msg w)"
  | (written) d where "fs w file_path = Some (DocxFile d)" "out_path \<notin> read_only w"
      "disk_quota w = None \<or> (\<exists>k. disk_quota w = Some k \<and> length (joined_text d) \<le> k)"
      "main w =
         (Inr (), w\<lparr>fs := (fs w)(out_path \<mapsto> PlainFile (joined_text d)),
                     decoder_calls := decoder_calls w @ [file_path],
                     console := console w @ [success_msg]\<rparr>)"
proof (cases w rule: main_cases)
  case absent
  then show ?thesis by (auto intro: that(1) main_absent)
next
  case (undecodable s)
  with assms show ?thesis by (simp add: main_undecodable)
next
  case (open_refused d)
  with assms show ?thesis by (simp add: main_open_refused)
next
  case (written d)
  then show ?thesis by (auto intro: that(2) main_written)
next
  case (write_failed d k)
  with assms show ?thesis by (simp add: main_write_failed)
qed

lemma open_handles_append_file: "open_handles (append_file f s w) = open_handles w"
  by (simp add: append_file_def split: option.splits disk_file.splits)

lemma open_handles_file_write: "open_handles (snd (file_write f s w)) = open_handles w"
  by (simp add: file_write_def open_handles_append_file split: option.splits)

lemma open_handles_with_open_w:
  "open_handles (snd (with_open_w path (\<lambda>f. file_write f txt) w)) = open_handles w"
proof (cases "path \<in> read_only w")
  case True
  then show ?thesis by (simp add: with_open_w_def open_w_def)
next
  case False
  then show ?thesis
    using open_handles_file_write
      [of path "txt" "w\<lparr>fs := (fs w)(path \<mapsto> PlainFile []), open_handles := path # open_handles w\<rparr>"]
    by (simp add: with_open_w_def open_w_def file_close_def case_prod_beta)
qed

lemma open_handles_main: "open_handles (snd (main w)) = open_handles w"
proof (cases w rule: main_cases)
  case absent
  then show ?thesis by (simp add: main_absent py_print_def)
next
  case (undecodable s)
  then show ?thesis by (simp add: main_undecodable)
next
  case (open_refused d)
  then show ?thesis by (simp add: main_open_refused)
next
  case (written d)
  then show ?thesis by (simp add: main_written)
next
  case (write_failed d k)
  then show ?thesis by (simp add: main_write_failed)
qed

section \<open>The claims\<close>

text \<open>
  \<^bold>\<open>C1\<close> (paragraph fidelity), as the code has it. When the input is a document with at
  least one paragraph, no paragraph text contains a newline character and the run
  succeeds, the output file split on the newline character has exactly as many
  elements as the document has paragraphs, and the \<open>i\<close>-th element is the text of the
  \<open>i\<close>-th paragraph.
\<close>

theorem paragraph_fidelity:
  assumes "fs w file_path = Some (DocxFile d)" and "fst (main w) = Inr ()"
    and "paragraphs d \<noteq> []"
    and "\<forall>p \<in> set (paragraphs d). newline \<notin> set (para_text p)"
  shows "\<exists>s. file_content (snd (main w)) out_path = Some s \<and>
     length (str_split newline s) = length (paragraphs d) \<and>
     (\<forall>i < length (paragraphs d). str_split newline s ! i = para_text (paragraphs d ! i))"
proof -
  have split: "str_split newline (joined_text d) = map para_text (paragraphs d)"
    using assms(3,4) by (intro str_split_join) auto
  show ?thesis
  proof (cases w rule: main_cases)
    case absent
    with assms(1) show ?thesis by simp
  next
    case (undecodable s)
    with assms(1) show ?thesis by simp
  next
    case (open_refused d')
    with assms(2) show ?thesis by (simp add: main_open_refused)
  next
    case (written d')
    with assms(1) have "d' = d" by simp
    with written have "main w =
        (Inr (), w\<lparr>fs := (fs w)(out_path \<mapsto> PlainFile (joined_text d)),
                    decoder_calls := decoder_calls w @ [file_path],
                    console := console w @ [success_msg]\<rparr>)"
      by (simp add: main_written)
    then have "file_content (snd (main w)) out_path = Some (joined_text d)"
      by (simp add: file_content_def)
    with split show ?thesis by simp
  next
    case (write_failed d' k)
    with assms(2) show ?thesis by (simp add: main_write_failed)
  qed
qed

theorem paragraph_fidelity_witness:
  "fs (world_with (DocxFile scenario_A)) file_path = Some (DocxFile scenario_A) \<and>
   fst (main (world_with (DocxFile scenario_A))) = Inr () \<and>
   paragraphs scenario_A \<noteq> [] \<and>
   list_all (\<lambda>p. newline \<notin> set (para_text p)) (paragraphs scenario_A) \<and>
   (\<exists>s. file_content (snd (main (world_with (DocxFile scenario_A)))) out_path = Some s \<and>
     length (str_split newline s) = 3 \<and>
     (\<forall>i < 3. str_split newline s ! i = para_text (paragraphs scenario_A ! i)))"
proof -
  have h3: "paragraphs scenario_A \<noteq> []"
    by (simp add: scenario_A_def)
  have h4: "\<forall>p \<in> set (paragraphs scenario_A). newline \<notin> set (para_text p)"
    by (simp add: scenario_A_def)
  have h5: "length (paragraphs scenario_A) = 3"
    by (simp add: scenario_A_def)
  from paragraph_fidelity [OF fs_world_with fst_main_world_with h3 h4] h3 h4 h5
  show ?thesis
    by (simp add: fs_world_with fst_main_world_with list_all_iff)
qed

text \<open>
  The claim as stated, for every document, fails twice. A document without paragraphs
  is written as the empty file, which splits into one (empty) element, not zero. A
  document whose only paragraph has a line break inside is written as two lines.
\<close>

theorem paragraph_fidelity_counterexample:
  "fst (main (world_with (DocxFile scenario_B))) = Inr () \<and>
   file_content (snd (main (world_with (DocxFile scenario_B)))) out_path = Some [] \<and>
   length (str_split newline []) = 1 \<and> length (paragraphs scenario_B) = 0 \<and>
   fst (main (world_with (DocxFile line_break_doc))) = Inr () \<and>
   file_content (snd (main (world_with (DocxFile line_break_doc)))) out_path
     = Some [CHR ''a'', newline, CHR ''b''] \<and>
   length (str_split newline [CHR ''a'', newline, CHR ''b'']) = 2 \<and>
   length (paragraphs line_break_doc) = 1"
  by (simp add: fst_main_world_with content_main_world_with)
    (simp add: scenario_B_def line_break_doc_def)

text \<open>
  \<^bold>\<open>C2\<close> (join semantics). The extractor returns the paragraph texts, in order, joined
  by the newline character: this is the specification's join, its length is the sum of
  the lengths of the texts plus one separator between each two neighbours, and it ends
  with the last paragraph's text, so nothing follows it. The paragraphs
  \<open>["Title", "", "Body text."]\<close> give \<open>"Title\n\nBody text."\<close>, and no paragraph
  gives the empty string.
\<close>

theorem join_semantics:
  assumes "fs w path = Some (DocxFile d)"
  shows "fst (read_docx path w) = Inr (joined_text d) \<and>
     joined_text d = joined_spec (map para_text (paragraphs d)) \<and>
     length (joined_text d) =
       sum_list (map length (map para_text (paragraphs d))) + (length (paragraphs d) - 1) \<and>
     (paragraphs d \<noteq> [] \<longrightarrow> suffix (para_text (last (paragraphs d))) (joined_text d)) \<and>
     joined_text scenario_A = ''Title'' @ [newline, newline] @ ''Body text.'' \<and>
     joined_text scenario_B = []"
proof -
  have "paragraphs d \<noteq> [] \<longrightarrow> suffix (para_text (last (paragraphs d))) (joined_text d)"
    using str_join_suffix [of "map para_text (paragraphs d)" "[newline]"]
    by (simp add: last_map)
  with assms show ?thesis
    by (simp add: read_docx_docx str_join_spec [symmetric] length_str_join
        scenario_A_def scenario_B_def)
qed

theorem join_semantics_witness:
  "fs (world_with (DocxFile scenario_A)) file_path = Some (DocxFile scenario_A) \<and>
   fst (read_docx file_path (world_with (DocxFile scenario_A))) =
     Inr (''Title'' @ [newline, newline] @ ''Body text.'') \<and>
   length (''Title'' @ [newline, newline] @ ''Body text.'') = 5 + 0 + 10 + (3 - 1) \<and>
   suffix ''Body text.'' (''Title'' @ [newline, newline] @ ''Body text.'')"
  using join_semantics [OF fs_world_with [of "DocxFile scenario_A"]]
  by (simp add: fs_world_with scenario_A_def joined_spec_def)

text \<open>
  \<^bold>\<open>C10\<close> (round trip at the extractor). For a document that has at least one paragraph
  and no newline character in any paragraph text, splitting what \<open>read_docx\<close> returns
  on the newline character gives back the list of paragraph texts; and the number of
  pieces equals the number of paragraphs exactly under that condition.
\<close>

theorem extractor_round_trip:
  assumes "fs w path = Some (DocxFile d)"
  shows "\<exists>txt w'. read_docx path w = (Inr txt, w') \<and>
           (paragraphs d \<noteq> [] \<and> (\<forall>p \<in> set (paragraphs d). newline \<notin> set (para_text p))
              \<longrightarrow> str_split newline txt = map para_text (paragraphs d)) \<and>
           (length (str_split newline txt) = length (paragraphs d)
              \<longleftrightarrow> paragraphs d \<noteq> [] \<and> (\<forall>p \<in> set (paragraphs d). newline \<notin> set (para_text p))) \<and>
           (length (str_split newline txt) = length (paragraphs d)
              \<longleftrightarrow> str_split newline txt = map para_text (paragraphs d))"
proof -
  let ?ps = "map para_text (paragraphs d)"
  have rt: "str_split newline (joined_text d) = ?ps"
    if "paragraphs d \<noteq> []" "\<forall>p \<in> set (paragraphs d). newline \<notin> set (para_text p)"
    using that by (intro str_split_join) auto
  have len: "length (str_split newline (joined_text d)) = length (paragraphs d)
      \<longleftrightarrow> paragraphs d \<noteq> [] \<and> (\<forall>p \<in> set (paragraphs d). newline \<notin> set (para_text p))"
  proof (cases "paragraphs d")
    case Nil
    then show ?thesis by simp
  next
    case (Cons a as)
    have "sum_list (map (\<lambda>p. count_list p newline) ?ps) = 0
        \<longleftrightarrow> (\<forall>p \<in> set ?ps. newline \<notin> set p)"
      by (rule sum_count_zero_iff)
    with Cons show ?thesis
      by (simp add: length_str_split count_list_str_join)
  qed
  from rt len have eq: "length (str_split newline (joined_text d)) = length (paragraphs d)
      \<longleftrightarrow> str_split newline (joined_text d) = ?ps"
    by (metis length_map)
  from assms rt len eq show ?thesis
    by (simp add: read_docx_docx)
qed

theorem extractor_round_trip_witness:
  "fs (world_with (DocxFile scenario_A)) file_path = Some (DocxFile scenario_A) \<and>
   read_docx file_path (world_with (DocxFile scenario_A)) =
     (Inr (''Title'' @ [newline, newline] @ ''Body text.''), decoded (world_with (DocxFile scenario_A))) \<and>
   str_split newline (''Title'' @ [newline, newline] @ ''Body text.'') = [''Title'', '''', ''Body text.''] \<and>
   length (str_split newline (''Title'' @ [newline, newline] @ ''Body text.'')) = length (paragraphs scenario_A)"
  using extractor_round_trip [of "world_with (DocxFile scenario_A)" file_path scenario_A]
  by (simp add: world_with_def scenario_A_def read_docx_docx)

text \<open>
  \<^bold>\<open>C3\<close> (missing-file safety). When nothing exists at the input path, the run ends
  normally, prints one message, which contains the input file name, leaves every file as
  it was (so no output file is created or modified), does not call the decoder and
  opens no handle.
\<close>

theorem missing_file_safety:
  assumes "\<not> path_exists w file_path"
  shows "fst (main w) = Inr () \<and>
     console (snd (main w)) = console w @ [not_found_msg] \<and>
     sublist file_path not_found_msg \<and>
     fs (snd (main w)) = fs w \<and>
     decoder_calls (snd (main w)) = decoder_calls w \<and>
     open_handles (snd (main w)) = open_handles w"
proof -
  from assms have "fs w file_path = None"
    by (simp add: path_exists_def)
  then have "main w = (Inr (), py_print not_found_msg w)"
    by (rule main_absent)
  then show ?thesis
    by (simp add: py_print_def sublist_not_found)
qed

theorem missing_file_safety_witness:
  "path_exists empty_world file_path = False \<and>
   fst (main empty_world) = Inr () \<and>
   console (snd (main empty_world)) = [''File JB_Platform_PRD_v3.docx not found''] \<and>
   fs (snd (main empty_world)) = Map.empty \<and>
   decoder_calls (snd (main empty_world)) = []"
proof -
  have h: "\<not> path_exists empty_world file_path"
    by (simp add: path_exists_def empty_world_def)
  from missing_file_safety [OF h] h show ?thesis
    by (simp add: empty_world_def not_found_msg_def file_path_def)
qed

text \<open>
  \<^bold>\<open>C4\<close> (decode and write failures propagate). When the input path exists, an error
  of the decoder leaves \<open>read_docx\<close> and then the script as it is, and an error of the
  \<open>with\<close> block (of \<open>open\<close> or of \<open>write\<close>, neither of which the block swallows)
  leaves the script as it is; in both cases nothing is printed, so the success message
  is not.
\<close>

theorem errors_propagate:
  assumes "path_exists w file_path"
  shows "(fst (Document file_path w) = Inl e \<longrightarrow>
            fst (read_docx file_path w) = Inl e \<and> fst (main w) = Inl e \<and>
            console (snd (main w)) = console w) \<and>
         (read_docx file_path w = (Inr txt, w1) \<and>
          fst (with_open_w out_path (\<lambda>f. file_write f txt) w1) = Inl e \<longrightarrow>
            fst (main w) = Inl e \<and> console (snd (main w)) = console w) \<and>
         (open_w out_path w1 = (Inr f, w2) \<and> fst (file_write f txt w2) = Inl e \<longrightarrow>
            fst (with_open_w out_path (\<lambda>f. file_write f txt) w1) = Inl e) \<and>
         (fst (open_w out_path w1) = Inl e \<longrightarrow>
            fst (with_open_w out_path (\<lambda>f. file_write f txt) w1) = Inl e)"
proof (intro conjI impI)
  assume d: "fst (Document file_path w) = Inl e"
  then show r: "fst (read_docx file_path w) = Inl e"
    by (auto simp: read_docx_def split: prod.splits sum.splits)
  from assms r show "fst (main w) = Inl e"
    by (auto simp: main_def split: prod.splits sum.splits)
  have "snd (read_docx file_path w) = decoded w"
    by (rule snd_read_docx)
  with assms r show "console (snd (main w)) = console w"
    by (auto simp: main_def split: prod.splits sum.splits)
next
  assume a: "read_docx file_path w = (Inr txt, w1) \<and>
     fst (with_open_w out_path (\<lambda>f. file_write f txt) w1) = Inl e"
  with assms show "fst (main w) = Inl e"
    by (auto simp: main_def split: prod.splits sum.splits)
  from a have w1: "w1 = decoded w"
    using snd_read_docx [of file_path w] by simp
  have "console (snd (with_open_w out_path (\<lambda>f. file_write f txt) w1)) = console w1"
    by (rule console_with_open_w)
  with assms a w1 show "console (snd (main w)) = console w"
    by (auto simp: main_def split: prod.splits sum.splits)
next
  assume "open_w out_path w1 = (Inr f, w2) \<and> fst (file_write f txt w2) = Inl e"
  then show "fst (with_open_w out_path (\<lambda>f. file_write f txt) w1) = Inl e"
    by (auto simp: with_open_w_def split: prod.splits sum.splits)
next
  assume "fst (open_w out_path w1) = Inl e"
  then show "fst (with_open_w out_path (\<lambda>f. file_write f txt) w1) = Inl e"
    by (auto simp: with_open_w_def split: prod.splits sum.splits)
qed

theorem errors_propagate_witness:
  "path_exists (world_with (PlainFile ''junk'')) file_path \<and>
   fst (Document file_path (world_with (PlainFile ''junk''))) = Inl DecodeError \<and>
   fst (main (world_with (PlainFile ''junk''))) = Inl DecodeError \<and>
   console (snd (main (world_with (PlainFile ''junk'')))) = [] \<and>
   path_exists ((world_with (DocxFile scenario_A))\<lparr>disk_quota := Some 3\<rparr>) file_path \<and>
   fst (with_open_w out_path (\<lambda>f. file_write f (joined_text scenario_A))
         (decoded ((world_with (DocxFile scenario_A))\<lparr>disk_quota := Some 3\<rparr>))) = Inl WriteError \<and>
   fst (main ((world_with (DocxFile scenario_A))\<lparr>disk_quota := Some 3\<rparr>)) = Inl WriteError \<and>
   console (snd (main ((world_with (DocxFile scenario_A))\<lparr>disk_quota := Some 3\<rparr>))) = []"
proof -
  let ?c = "world_with (PlainFile ''junk'')"
  let ?f = "(world_with (DocxFile scenario_A))\<lparr>disk_quota := Some 3\<rparr>"
  have c1: "path_exists ?c file_path"
    by (simp add: path_exists_def world_with_def)
  have c2: "fst (Document file_path ?c) = Inl DecodeError"
    by (simp add: Document_def world_with_def)
  have f1: "path_exists ?f file_path"
    by (simp add: path_exists_def world_with_def)
  have f2: "read_docx file_path ?f = (Inr (joined_text scenario_A), decoded ?f)"
    by (rule read_docx_docx) (simp add: world_with_def)
  have f3: "fst (with_open_w out_path (\<lambda>f. file_write f (joined_text scenario_A)) (decoded ?f))
      = Inl WriteError"
    by (simp add: with_open_w_def open_w_def file_write_def world_with_def scenario_A_def)
  have f4: "console ?f = []" and c4: "console ?c = []"
    by (simp_all add: world_with_def)
  from errors_propagate [OF c1, of DecodeError] errors_propagate [OF f1, of WriteError "joined_text scenario_A" "decoded ?f"]
    c1 c2 f1 f2 f3 f4 c4
  show ?thesis by simp
qed

text \<open>
  \<^bold>\<open>C5\<close> (overwrite semantics). After a successful run on an existing input, the output
  file holds exactly the joined text of the document, and it does so whatever was at the
  output path before the run: another file, a document, or nothing.
\<close>

theorem overwrite_semantics:
  assumes "path_exists w file_path" and "fst (main w) = Inr ()"
  shows "\<exists>d. fs w file_path = Some (DocxFile d) \<and>
     file_content (snd (main w)) out_path = Some (joined_text d) \<and>
     fst (main (w\<lparr>fs := (fs w)(out_path := prior)\<rparr>)) = Inr () \<and>
     file_content (snd (main (w\<lparr>fs := (fs w)(out_path := prior)\<rparr>))) out_path
       = Some (joined_text d)"
proof (cases w rule: main_cases)
  case absent
  with assms(1) show ?thesis by (simp add: path_exists_def)
next
  case (undecodable s)
  with assms(2) show ?thesis by (simp add: main_undecodable)
next
  case (open_refused d)
  with assms(2) show ?thesis by (simp add: main_open_refused)
next
  case (written d)
  let ?w' = "w\<lparr>fs := (fs w)(out_path := prior)\<rparr>"
  from written have m: "main w =
      (Inr (), w\<lparr>fs := (fs w)(out_path \<mapsto> PlainFile (joined_text d)),
                  decoder_calls := decoder_calls w @ [file_path],
                  console := console w @ [success_msg]\<rparr>)"
    by (rule main_written)
  from written paths_differ have "fs ?w' file_path = Some (DocxFile d)"
    and "out_path \<notin> read_only ?w'"
    and "disk_quota ?w' = None \<or> (\<exists>k. disk_quota ?w' = Some k \<and> length (joined_text d) \<le> k)"
    by simp_all
  then have m': "main ?w' =
      (Inr (), ?w'\<lparr>fs := (fs ?w')(out_path \<mapsto> PlainFile (joined_text d)),
                  decoder_calls := decoder_calls ?w' @ [file_path],
                  console := console ?w' @ [success_msg]\<rparr>)"
    by (rule main_written)
  from written(1) show ?thesis
    by (simp add: m m' file_content_def)
next
  case (write_failed d k)
  with assms(2) show ?thesis by (simp add: main_write_failed)
qed

theorem overwrite_semantics_witness:
  "path_exists (world_with (DocxFile scenario_A)) file_path \<and>
   fst (main (world_with (DocxFile scenario_A))) = Inr () \<and>
   file_content (snd (main (world_with (DocxFile scenario_A)))) out_path
     = Some (''Title'' @ [newline, newline] @ ''Body text.'') \<and>
   file_content ((world_with (DocxFile scenario_A))
       \<lparr>fs := (fs (world_with (DocxFile scenario_A)))(out_path \<mapsto> PlainFile ''old lines'')\<rparr>) out_path
     = Some ''old lines'' \<and>
   file_content (snd (main ((world_with (DocxFile scenario_A))
       \<lparr>fs := (fs (world_with (DocxFile scenario_A)))(out_path \<mapsto> PlainFile ''old lines'')\<rparr>))) out_path
     = Some (''Title'' @ [newline, newline] @ ''Body text.'')"
proof -
  let ?w = "world_with (DocxFile scenario_A)"
  have h1: "path_exists ?w file_path"
    by (simp add: path_exists_def fs_world_with)
  have j: "joined_text scenario_A = ''Title'' @ [newline, newline] @ ''Body text.''"
    by (simp add: scenario_A_def)
  have p: "file_content (?w\<lparr>fs := (fs ?w)(out_path \<mapsto> PlainFile ''old lines'')\<rparr>) out_path
      = Some ''old lines''"
    by (simp add: file_content_def)
  from overwrite_semantics [OF h1 fst_main_world_with, of "Some (PlainFile ''old lines'')"]
  have "file_content (snd (main ?w)) out_path = Some (joined_text scenario_A) \<and>
     file_content (snd (main (?w\<lparr>fs := (fs ?w)(out_path \<mapsto> PlainFile ''old lines'')\<rparr>))) out_path
       = Some (joined_text scenario_A)"
    by (auto simp: fs_world_with)
  with h1 p show ?thesis
    by (simp only: j fst_main_world_with simp_thms)
qed

text \<open>
  \<^bold>\<open>C6\<close> (determinism of extraction). Two successful runs on documents with the same
  sequence of paragraph texts leave the same output file content, whatever else differs
  between the two worlds. In particular a run does not change its input, and a second
  run in the world the first one left succeeds and leaves the same content again.
\<close>

theorem extraction_deterministic:
  assumes "fs w file_path = Some (DocxFile d)" and "fs w' file_path = Some (DocxFile d')"
    and "map para_text (paragraphs d) = map para_text (paragraphs d')"
    and "fst (main w) = Inr ()" and "fst (main w') = Inr ()"
  shows "file_content (snd (main w)) out_path = file_content (snd (main w')) out_path \<and>
     fs (snd (main w)) file_path = fs w file_path \<and>
     fst (main (snd (main w))) = Inr () \<and>
     file_content (snd (main (snd (main w)))) out_path = file_content (snd (main w)) out_path"
proof -
  have out: "file_content (snd (main v)) out_path = Some (joined_text e) \<and>
      fs (snd (main v)) file_path = fs v file_path \<and>
      out_path \<notin> read_only (snd (main v)) \<and> disk_quota (snd (main v)) = disk_quota v \<and>
      (disk_quota v = None \<or> (\<exists>k. disk_quota v = Some k \<and> length (joined_text e) \<le> k))"
    if "fs v file_path = Some (DocxFile e)" "fst (main v) = Inr ()" for v e
    using that(2)
  proof (cases v rule: main_success_cases)
    case absent
    with that(1) show ?thesis by simp
  next
    case (written e')
    with that(1) paths_differ show ?thesis by (simp add: file_content_def)
  qed
  from out [OF assms(1,4)] out [OF assms(2,5)] assms(3)
  have same: "file_content (snd (main w)) out_path = file_content (snd (main w')) out_path"
    by simp
  let ?v = "snd (main w)"
  from out [OF assms(1,4)] assms(1) have v: "fs ?v file_path = Some (DocxFile d)"
    "out_path \<notin> read_only ?v"
    "disk_quota ?v = None \<or> (\<exists>k. disk_quota ?v = Some k \<and> length (joined_text d) \<le> k)"
    by simp_all
  then have again: "main ?v =
      (Inr (), ?v\<lparr>fs := (fs ?v)(out_path \<mapsto> PlainFile (joined_text d)),
                  decoder_calls := decoder_calls ?v @ [file_path],
                  console := console ?v @ [success_msg]\<rparr>)"
    by (rule main_written)
  from out [OF assms(1,4)] same show ?thesis
    by (simp add: again file_content_def)
qed

theorem extraction_deterministic_witness:
  "fst (main (world_with (DocxFile scenario_A))) = Inr () \<and>
   fst (main ((world_with (DocxFile scenario_A))\<lparr>console := [''earlier output'']\<rparr>)) = Inr () \<and>
   file_content (snd (main (world_with (DocxFile scenario_A)))) out_path =
     file_content (snd (main ((world_with (DocxFile scenario_A))\<lparr>console := [''earlier output'']\<rparr>))) out_path \<and>
   fst (main (snd (main (world_with (DocxFile scenario_A))))) = Inr () \<and>
   file_content (snd (main (snd (main (world_with (DocxFile scenario_A)))))) out_path =
     Some (''Title'' @ [newline, newline] @ ''Body text.'')"
proof -
  let ?w = "world_with (DocxFile scenario_A)"
  let ?w' = "?w\<lparr>console := [''earlier output'']\<rparr>"
  have h2: "fs ?w' file_path = Some (DocxFile scenario_A)"
    by (simp add: fs_world_with)
  have h5: "fst (main ?w') = Inr ()"
    by (subst main_written [of _ scenario_A]) (simp_all add: world_with_def)
  have j: "joined_text scenario_A = ''Title'' @ [newline, newline] @ ''Body text.''"
    by (simp add: scenario_A_def)
  from extraction_deterministic [OF fs_world_with h2 refl fst_main_world_with h5] h5
  show ?thesis
    by (simp add: fst_main_world_with content_main_world_with j)
qed

text \<open>
  \<^bold>\<open>C7\<close> (console outcomes). A run that ends normally appends exactly one line to the
  console: the success message when the input exists (and then the document was
  decoded and written), the not-found message when it does not. The first contains the
  output file name, the second the input file name, and the two differ.
\<close>

theorem console_outcomes:
  assumes "fst (main w) = Inr ()"
  shows "((path_exists w file_path \<and> console (snd (main w)) = console w @ [success_msg] \<and>
           (\<exists>d. fs w file_path = Some (DocxFile d) \<and>
                file_content (snd (main w)) out_path = Some (joined_text d)))
          \<or> (\<not> path_exists w file_path \<and> console (snd (main w)) = console w @ [not_found_msg])) \<and>
         sublist out_path success_msg \<and> sublist file_path not_found_msg \<and>
         success_msg \<noteq> not_found_msg"
  using assms
proof (cases w rule: main_success_cases)
  case absent
  then show ?thesis
    by (simp add: path_exists_def py_print_def sublist_success sublist_not_found msgs_differ)
next
  case (written d)
  then show ?thesis
    by (simp add: path_exists_def file_content_def sublist_success sublist_not_found msgs_differ)
qed

theorem console_outcomes_witness:
  "fst (main (world_with (DocxFile scenario_A))) = Inr () \<and>
   console (snd (main (world_with (DocxFile scenario_A)))) =
     [''Successfully extracted text to JB_Platform_PRD_v3.txt''] \<and>
   fst (main empty_world) = Inr () \<and>
   console (snd (main empty_world)) = [''File JB_Platform_PRD_v3.docx not found'']"
proof -
  have e: "fst (main empty_world) = Inr ()"
    by (simp add: main_absent fs_empty_world)
  have pa: "path_exists (world_with (DocxFile scenario_A)) file_path"
    and pe: "\<not> path_exists empty_world file_path"
    and ca: "console (world_with (DocxFile scenario_A)) = []"
    and ce: "console empty_world = []"
    by (simp_all add: path_exists_def world_with_def empty_world_def)
  from console_outcomes [OF fst_main_world_with, of scenario_A] console_outcomes [OF e]
    pa pe ca ce e
  show ?thesis
    by (simp add: fst_main_world_with success_msg_def not_found_msg_def file_path_def)
qed

text \<open>
  \<^bold>\<open>C8\<close> (release of the output handle). The \<open>with\<close> block around the write leaves
  the open handles as it found them, whether the write returned or raised, and so does
  the whole script. When the path can be opened, the handle is open while the write
  runs.
\<close>

theorem handle_released:
  "open_handles (snd (with_open_w path (\<lambda>f. file_write f txt) w)) = open_handles w \<and>
   open_handles (snd (main w)) = open_handles w \<and>
   (path \<notin> read_only w \<longrightarrow>
      (\<exists>w1. open_w path w = (Inr path, w1) \<and> open_handles w1 = path # open_handles w \<and>
            open_handles (snd (file_write path txt w1)) = path # open_handles w))"
proof (intro conjI impI)
  show "open_handles (snd (with_open_w path (\<lambda>f. file_write f txt) w)) = open_handles w"
    by (rule open_handles_with_open_w)
  show "open_handles (snd (main w)) = open_handles w"
    by (rule open_handles_main)
next
  assume writable: "path \<notin> read_only w"
  let ?w1 = "w\<lparr>fs := (fs w)(path \<mapsto> PlainFile []), open_handles := path # open_handles w\<rparr>"
  from writable have "open_w path w = (Inr path, ?w1)"
    by (simp add: open_w_def)
  moreover have "open_handles ?w1 = path # open_handles w"
    by simp
  moreover have "open_handles (snd (file_write path txt ?w1)) = path # open_handles w"
    by (simp add: open_handles_file_write)
  ultimately show "\<exists>w1. open_w path w = (Inr path, w1) \<and>
      open_handles w1 = path # open_handles w \<and>
      open_handles (snd (file_write path txt w1)) = path # open_handles w"
    by blast
qed

theorem handle_released_witness:
  "out_path \<notin> read_only ((world_with (DocxFile scenario_A))\<lparr>disk_quota := Some 3\<rparr>) \<and>
   fst (with_open_w out_path (\<lambda>f. file_write f ''Title'')
         ((world_with (DocxFile scenario_A))\<lparr>disk_quota := Some 3\<rparr>)) = Inl WriteError \<and>
   open_handles (snd (with_open_w out_path (\<lambda>f. file_write f ''Title'')
         ((world_with (DocxFile scenario_A))\<lparr>disk_quota := Some 3\<rparr>))) = [] \<and>
   fst (main ((world_with (DocxFile scenario_A))\<lparr>disk_quota := Some 3\<rparr>)) = Inl WriteError \<and>
   open_handles (snd (main ((world_with (DocxFile scenario_A))\<lparr>disk_quota := Some 3\<rparr>))) = [] \<and>
   open_handles (snd (main (world_with (DocxFile scenario_A)))) = []"
proof -
  let ?f = "(world_with (DocxFile scenario_A))\<lparr>disk_quota := Some 3\<rparr>"
  have r: "out_path \<notin> read_only ?f" and h: "open_handles ?f = []"
    and h': "open_handles (world_with (DocxFile scenario_A)) = []"
    by (simp_all add: world_with_def)
  have e: "fst (with_open_w out_path (\<lambda>f. file_write f ''Title'') ?f) = Inl WriteError"
    by (simp add: with_open_w_def open_w_def file_write_def world_with_def)
  have m: "fst (main ?f) = Inl WriteError"
    by (subst main_write_failed [of _ scenario_A 3]) (simp_all add: world_with_def scenario_A_def)
  from handle_released [of out_path "''Title''" ?f] handle_released [of out_path "''Title''" "world_with (DocxFile scenario_A)"]
    r h h' e m
  show ?thesis by simp
qed

text \<open>
  \<^bold>\<open>C9\<close> (no output on a decode failure). When the input path exists and the decoder
  raises, the script ends with that error and every file is as it was before: the output
  file is neither created nor modified, and no handle was opened.
\<close>

theorem decode_failure_leaves_output:
  assumes "path_exists w file_path" and "fst (Document file_path w) = Inl e"
  shows "fst (main w) = Inl e \<and> fs (snd (main w)) = fs w \<and>
     open_handles (snd (main w)) = open_handles w \<and> console (snd (main w)) = console w"
proof (cases w rule: main_cases)
  case absent
  with assms(1) show ?thesis by (simp add: path_exists_def)
next
  case (undecodable s)
  with assms(2) show ?thesis by (simp add: main_undecodable Document_def)
next
  case (open_refused d)
  with assms(2) show ?thesis by (simp add: Document_def)
next
  case (written d)
  with assms(2) show ?thesis by (simp add: Document_def)
next
  case (write_failed d k)
  with assms(2) show ?thesis by (simp add: Document_def)
qed

theorem decode_failure_leaves_output_witness:
  "path_exists ((world_with (PlainFile ''junk''))
      \<lparr>fs := [file_path \<mapsto> PlainFile ''junk'', out_path \<mapsto> PlainFile ''old lines'']\<rparr>) file_path \<and>
   fst (Document file_path ((world_with (PlainFile ''junk''))
      \<lparr>fs := [file_path \<mapsto> PlainFile ''junk'', out_path \<mapsto> PlainFile ''old lines'']\<rparr>))
     = Inl DecodeError \<and>
   fst (main ((world_with (PlainFile ''junk''))
      \<lparr>fs := [file_path \<mapsto> PlainFile ''junk'', out_path \<mapsto> PlainFile ''old lines'']\<rparr>))
     = Inl DecodeError \<and>
   file_content (snd (main ((world_with (PlainFile ''junk''))
      \<lparr>fs := [file_path \<mapsto> PlainFile ''junk'', out_path \<mapsto> PlainFile ''old lines'']\<rparr>))) out_path
     = Some ''old lines''"
proof -
  let ?w = "(world_with (PlainFile ''junk''))
      \<lparr>fs := [file_path \<mapsto> PlainFile ''junk'', out_path \<mapsto> PlainFile ''old lines'']\<rparr>"
  have fp: "fs ?w file_path = Some (PlainFile ''junk'')"
    using paths_differ by simp
  have h1: "path_exists ?w file_path"
    by (simp add: path_exists_def fp)
  have h2: "fst (Document file_path ?w) = Inl DecodeError"
    by (simp add: Document_def fp)
  have c: "file_content ?w out_path = Some ''old lines''"
    by (simp add: file_content_def)
  from decode_failure_leaves_output [OF h1 h2] h1 h2 c show ?thesis
    by (simp add: file_content_def)
qed

end
